theory Spec2Isabelle
  imports Main
begin

section \<open>The two primitives DatumEither is built from\<close>

text \<open>
  \<^verbatim>\<open>Either<E, A>\<close> of fp-ts is the tagged union \<^verbatim>\<open>Left<E> | Right<A>\<close>. The
  constructor functions \<^verbatim>\<open>left(e)\<close> and \<^verbatim>\<open>right(a)\<close> are the constructors \<open>Left\<close>
  and \<open>Right\<close>; the fields \<^verbatim>\<open>e.left\<close> and \<^verbatim>\<open>e.right\<close> are the selectors.
\<close>

datatype ('e, 'a) Either = Left (left: 'e) | Right (right: 'a)

definition isLeft :: "('e, 'a) Either \<Rightarrow> bool" where
  "isLeft ma = (case ma of Left _ \<Rightarrow> True | Right _ \<Rightarrow> False)"

definition isRight :: "('e, 'a) Either \<Rightarrow> bool" where
  "isRight ma = (case ma of Left _ \<Rightarrow> False | Right _ \<Rightarrow> True)"

text \<open>
  Modelled from the spec: the four-state lifecycle type \<^verbatim>\<open>Datum<A>\<close> of \<^verbatim>\<open>./Datum\<close>,
  which \<^verbatim>\<open>DatumEither.ts\<close> imports (lines 35-47) and which is not among the sources.
  The spec gives it the four tags NotRequested, Loading, Refreshing(payload) and
  Settled(payload); the source calls them \<^verbatim>\<open>Initial\<close>, \<^verbatim>\<open>Pending\<close>, \<^verbatim>\<open>Refresh\<close> and
  \<^verbatim>\<open>Replete\<close> (lines 9-16). \<^verbatim>\<open>initialD\<close>, \<^verbatim>\<open>pendingD\<close>, \<^verbatim>\<open>refresh(x)\<close> and \<^verbatim>\<open>replete(x)\<close>
  are the constructors; \<^verbatim>\<open>fea.value\<close> is the selector \<open>val\<close>.
\<close>

datatype 'a Datum = Initial | Pending | Refresh (val: 'a) | Replete (val: 'a)

text \<open>
  Modelled from the spec: \<^verbatim>\<open>isValued\<close> of \<^verbatim>\<open>./Datum\<close>, true iff the tag is Refreshing or
  Settled.
\<close>

definition isValued :: "'a Datum \<Rightarrow> bool" where
  "isValued ma = (case ma of Initial \<Rightarrow> False | Pending \<Rightarrow> False
                   | Refresh _ \<Rightarrow> True | Replete _ \<Rightarrow> True)"

text \<open>
  Modelled from the spec: \<^verbatim>\<open>fold\<close> of \<^verbatim>\<open>./Datum\<close>, the total case analysis
  \<^verbatim>\<open>fold(onNotRequested, onLoading, onRefreshing, onSettled)\<close> over the four tags; the two
  payload-free handlers are thunks.
\<close>

definition fold_Datum ::
  "(unit \<Rightarrow> 'b) \<Rightarrow> (unit \<Rightarrow> 'b) \<Rightarrow> ('a \<Rightarrow> 'b) \<Rightarrow> ('a \<Rightarrow> 'b) \<Rightarrow> 'a Datum \<Rightarrow> 'b" where
  "fold_Datum onInitial onPending onRefresh onReplete ma =
     (case ma of Initial \<Rightarrow> onInitial () | Pending \<Rightarrow> onPending ()
               | Refresh v \<Rightarrow> onRefresh v | Replete v \<Rightarrow> onReplete v)"

section \<open>DatumEither.ts\<close>

type_synonym ('e, 'a) DatumEither = "('e, 'a) Either Datum"

definition success :: "'a \<Rightarrow> ('e, 'a) DatumEither" where
  "success a = Replete (Right a)"

definition failure :: "'e \<Rightarrow> ('e, 'a) DatumEither" where
  "failure e = Replete (Left e)"

definition initial :: "('e, 'a) DatumEither" where
  "initial = Initial"

definition pending :: "('e, 'a) DatumEither" where
  "pending = Pending"

definition constInitial :: "unit \<Rightarrow> ('e, 'a) DatumEither" where
  "constInitial u = initial"

definition constPending :: "unit \<Rightarrow> ('e, 'a) DatumEither" where
  "constPending u = pending"

definition isSuccess :: "('e, 'a) DatumEither \<Rightarrow> bool" where
  "isSuccess fea = (isValued fea \<and> isRight (val fea))"

definition isFailure :: "('e, 'a) DatumEither \<Rightarrow> bool" where
  "isFailure fea = (isValued fea \<and> isLeft (val fea))"

definition toRefresh :: "('e, 'a) DatumEither \<Rightarrow> ('e, 'a) DatumEither" where
  "toRefresh fea =
     fold_Datum constPending constPending (\<lambda>_. fea) (\<lambda>a. Refresh a) fea"

text \<open>The argument type \<^verbatim>\<open>A | null | undefined\<close> of \<^verbatim>\<open>fromNullable\<close>.\<close>

datatype 'a nullable = Null | Undefined | Present 'a

definition fromNullable :: "'a nullable \<Rightarrow> ('e, 'a) DatumEither" where
  "fromNullable a =
     (case a of Null \<Rightarrow> initial | Undefined \<Rightarrow> initial | Present x \<Rightarrow> success x)"

definition refreshFold ::
  "(unit \<Rightarrow> 'b) \<Rightarrow> (unit \<Rightarrow> 'b) \<Rightarrow> ('e \<Rightarrow> bool \<Rightarrow> 'b) \<Rightarrow> ('a \<Rightarrow> bool \<Rightarrow> 'b)
     \<Rightarrow> ('e, 'a) DatumEither \<Rightarrow> 'b" where
  "refreshFold onInitial onPending onFailure onSuccess fea =
     fold_Datum onInitial onPending
       (\<lambda>e. if isRight e then onSuccess (right e) True else onFailure (left e) True)
       (\<lambda>e. if isRight e then onSuccess (right e) False else onFailure (left e) False)
       fea"

definition squash ::
  "(bool \<Rightarrow> 'b) \<Rightarrow> ('e \<Rightarrow> bool \<Rightarrow> 'b) \<Rightarrow> ('a \<Rightarrow> bool \<Rightarrow> 'b) \<Rightarrow> ('e, 'a) DatumEither \<Rightarrow> 'b" where
  "squash onNone onFailure onSuccess fea =
     fold_Datum (\<lambda>_. onNone False) (\<lambda>_. onNone True)
       (\<lambda>e. if isRight e then onSuccess (right e) True else onFailure (left e) True)
       (\<lambda>e. if isRight e then onSuccess (right e) False else onFailure (left e) False)
       fea"

section \<open>The monad instance \<^verbatim>\<open>datumEither\<close> and its pipeable operations\<close>

text \<open>
  Lines 90-93 build the instance as \<^verbatim>\<open>getEitherM(datum)\<close> and lines 201-212 turn it into the
  curried \<^verbatim>\<open>map\<close>, \<^verbatim>\<open>chain\<close> and \<^verbatim>\<open>alt\<close> with \<^verbatim>\<open>pipeable\<close>. Two things are needed: the
  monad instance \<^verbatim>\<open>datum\<close> of \<^verbatim>\<open>./Datum\<close>, which is not among the sources, and the
  combinators \<^verbatim>\<open>getEitherM\<close> and \<^verbatim>\<open>pipeable\<close> of the fp-ts library (version 2).
\<close>

text \<open>
  Modelled from the spec: \<^verbatim>\<open>datum.map\<close> of \<^verbatim>\<open>./Datum\<close>, the lifecycle's own transformer for
  the four-way tag dispatch: NotRequested and Loading are unchanged, Refreshing and Settled
  keep their tag and have the payload transformed.
\<close>

definition datum_map :: "'a Datum \<Rightarrow> ('a \<Rightarrow> 'b) \<Rightarrow> 'b Datum" where
  "datum_map ma f =
     (case ma of Initial \<Rightarrow> Initial | Pending \<Rightarrow> Pending
               | Refresh v \<Rightarrow> Refresh (f v) | Replete v \<Rightarrow> Replete (f v))"

text \<open>
  Modelled from the spec: \<^verbatim>\<open>datum.of\<close> of \<^verbatim>\<open>./Datum\<close>. The unit of the combined monad is
  \<^verbatim>\<open>success\<close>, which is Settled(Success(a)), and \<^verbatim>\<open>getEitherM\<close> builds its unit as
  \<^verbatim>\<open>M.of(right(a))\<close>: the lifecycle's unit is \<^verbatim>\<open>replete\<close>.
\<close>

definition datum_of :: "'a \<Rightarrow> 'a Datum" where
  "datum_of a = Replete a"

text \<open>
  Modelled from the spec: \<^verbatim>\<open>datum.chain\<close> of \<^verbatim>\<open>./Datum\<close>. NotRequested and Loading
  short-circuit unchanged; a payload is passed to the function, and the result's lifecycle
  and payload replace the original entirely (monadic substitution, not a merge of tags,
  so that a Settled value chained into a function returning Loading yields Loading).
\<close>

definition datum_chain :: "'a Datum \<Rightarrow> ('a \<Rightarrow> 'b Datum) \<Rightarrow> 'b Datum" where
  "datum_chain ma f =
     (case ma of Initial \<Rightarrow> Initial | Pending \<Rightarrow> Pending
               | Refresh v \<Rightarrow> f v | Replete v \<Rightarrow> f v)"

text \<open>
  \<^verbatim>\<open>either.map\<close> of fp-ts: \<^verbatim>\<open>(ma, f) => isLeft(ma) ? ma : right(f(ma.right))\<close>. The
  \<^verbatim>\<open>Left\<close> value returned as it is changes its type parameter, so it is rebuilt here
  from its field.
\<close>

definition either_map :: "('e, 'a) Either \<Rightarrow> ('a \<Rightarrow> 'b) \<Rightarrow> ('e, 'b) Either" where
  "either_map ma f = (if isLeft ma then Left (left ma) else Right (f (right ma)))"

text \<open>
  \<^verbatim>\<open>getEitherM(M)\<close> of fp-ts (\<^verbatim>\<open>fp-ts/lib/EitherT\<close>), taken at \<^verbatim>\<open>M = datum\<close>. With
  \<^verbatim>\<open>A = getApplicativeComposition(M, either)\<close> its fields are
  \<^verbatim>\<open>map: (fga, f) => M.map(fga, ga => either.map(ga, f))\<close>,
  \<^verbatim>\<open>of: a => M.of(right(a))\<close>,
  \<^verbatim>\<open>chain: (ma, f) => M.chain(ma, e => (isLeft(e) ? M.of(left(e.left)) : f(e.right)))\<close> and
  \<^verbatim>\<open>alt: (fx, f) => M.chain(fx, e => (isLeft(e) ? f() : A.of(e.right)))\<close>.
\<close>

definition datumEither_map ::
  "('e, 'a) DatumEither \<Rightarrow> ('a \<Rightarrow> 'b) \<Rightarrow> ('e, 'b) DatumEither" where
  "datumEither_map fga f = datum_map fga (\<lambda>ga. either_map ga f)"

definition datumEither_of :: "'a \<Rightarrow> ('e, 'a) DatumEither" where
  "datumEither_of a = datum_of (Right a)"

definition datumEither_chain ::
  "('e, 'a) DatumEither \<Rightarrow> ('a \<Rightarrow> ('e, 'b) DatumEither) \<Rightarrow> ('e, 'b) DatumEither" where
  "datumEither_chain ma f =
     datum_chain ma (\<lambda>e. if isLeft e then datum_of (Left (left e)) else f (right e))"

definition datumEither_alt ::
  "('e, 'a) DatumEither \<Rightarrow> (unit \<Rightarrow> ('e, 'a) DatumEither) \<Rightarrow> ('e, 'a) DatumEither" where
  "datumEither_alt fx f =
     datum_chain fx (\<lambda>e. if isLeft e then f () else datumEither_of (right e))"

text \<open>
  \<^verbatim>\<open>pipeable(I)\<close> of fp-ts gives the data-last forms: \<^verbatim>\<open>map: f => fa => I.map(fa, f)\<close>,
  \<^verbatim>\<open>chain: f => ma => I.chain(ma, f)\<close> and \<^verbatim>\<open>alt: that => fa => I.alt(fa, that)\<close>. They
  are the exported \<^verbatim>\<open>map\<close>, \<^verbatim>\<open>chain\<close> and \<^verbatim>\<open>alt\<close> of lines 201-212.
\<close>

definition map_DE :: "('a \<Rightarrow> 'b) \<Rightarrow> ('e, 'a) DatumEither \<Rightarrow> ('e, 'b) DatumEither" where
  "map_DE f fa = datumEither_map fa f"

definition chain_DE ::
  "('a \<Rightarrow> ('e, 'b) DatumEither) \<Rightarrow> ('e, 'a) DatumEither \<Rightarrow> ('e, 'b) DatumEither" where
  "chain_DE f ma = datumEither_chain ma f"

definition alt_DE ::
  "(unit \<Rightarrow> ('e, 'a) DatumEither) \<Rightarrow> ('e, 'a) DatumEither \<Rightarrow> ('e, 'a) DatumEither" where
  "alt_DE that fa = datumEither_alt fa that"

text \<open>
  How often \<^verbatim>\<open>alt\<close> calls its thunk. The same two functions again, \<^verbatim>\<open>datum.chain\<close> and the
  \<^verbatim>\<open>alt\<close> of \<^verbatim>\<open>getEitherM\<close>, with every result paired with the number of calls of the thunk
  made while computing it: the continuation handed to \<^verbatim>\<open>M.chain\<close> makes one call in its
  \<^verbatim>\<open>isLeft\<close> branch and none in the other, and \<^verbatim>\<open>M.chain\<close> makes none of its own.
\<close>

definition datum_chain_calls ::
  "'a Datum \<Rightarrow> ('a \<Rightarrow> 'b Datum \<times> nat) \<Rightarrow> 'b Datum \<times> nat" where
  "datum_chain_calls ma f =
     (case ma of Initial \<Rightarrow> (Initial, 0) | Pending \<Rightarrow> (Pending, 0)
               | Refresh v \<Rightarrow> f v | Replete v \<Rightarrow> f v)"

definition alt_calls ::
  "(unit \<Rightarrow> ('e, 'a) DatumEither) \<Rightarrow> ('e, 'a) DatumEither \<Rightarrow> ('e, 'a) DatumEither \<times> nat" where
  "alt_calls that fa =
     datum_chain_calls fa
       (\<lambda>e. if isLeft e then (that (), 1) else (datumEither_of (right e), 0))"

text \<open>
  The function of the spec's chaining scenario, on integers:
  \<^verbatim>\<open>a => a > 0 ? Settled(Success(a*2)) : Loading\<close>.
\<close>

definition double_if_positive :: "int \<Rightarrow> (string, int) DatumEither" where
  "double_if_positive a = (if a > 0 then Replete (Right (a * 2)) else Pending)"

section \<open>Properties of the state transition, constructors, predicates and eliminators\<close>

lemma toRefresh_Initial: "toRefresh Initial = Pending"
  by (simp add: toRefresh_def fold_Datum_def constPending_def pending_def)

lemma toRefresh_Pending: "toRefresh Pending = Pending"
  by (simp add: toRefresh_def fold_Datum_def constPending_def pending_def)

lemma toRefresh_Refresh: "toRefresh (Refresh x) = Refresh x"
  by (simp add: toRefresh_def fold_Datum_def)

lemma toRefresh_Replete: "toRefresh (Replete x) = Refresh x"
  by (simp add: toRefresh_def fold_Datum_def)

text \<open>
  C5: \<^verbatim>\<open>toRefresh\<close> is idempotent: applying it twice gives the same value as applying it
  once, for every DatumEither.
\<close>

theorem toRefresh_idempotent: "toRefresh (toRefresh s) = toRefresh s"
  by (cases s)
    (simp_all add: toRefresh_Initial toRefresh_Pending toRefresh_Refresh toRefresh_Replete)

text \<open>
  C1, as amended: \<^verbatim>\<open>toRefresh\<close> maps Settled(o) to Refreshing(o) carrying the same Outcome,
  is the identity on Refreshing values and on Loading, and maps NotRequested to Loading:
  the handler the source passes to \<^verbatim>\<open>fold\<close> for the NotRequested tag is \<^verbatim>\<open>constPending\<close>.
\<close>

theorem toRefresh_cases:
  "toRefresh (Replete ou) = Refresh ou
   \<and> toRefresh (Refresh ou) = Refresh ou
   \<and> toRefresh (pending :: ('e, 'a) DatumEither) = pending
   \<and> toRefresh (initial :: ('e, 'a) DatumEither) = pending"
  by (simp add: toRefresh_Initial toRefresh_Pending toRefresh_Refresh toRefresh_Replete
      initial_def pending_def)

text \<open>
  \<^verbatim>\<open>toRefresh\<close> is not the identity on NotRequested: the value it returns there is a
  different one.
\<close>

theorem toRefresh_initial_not_identity:
  "toRefresh (initial :: (string, int) DatumEither) \<noteq> initial"
  by (simp add: toRefresh_Initial initial_def)

text \<open>
  C10: \<^verbatim>\<open>toRefresh\<close> applied to NotRequested returns Loading, the same result as on
  Loading; for every input the result is never NotRequested, it is Loading or a Refreshing
  value.
\<close>

theorem toRefresh_never_initial:
  "toRefresh (initial :: ('e, 'a) DatumEither) = pending
   \<and> toRefresh (initial :: ('e, 'a) DatumEither) = toRefresh pending
   \<and> toRefresh s \<noteq> initial
   \<and> (toRefresh s = pending \<or> (\<exists>ou. toRefresh s = Refresh ou))"
  by (cases s)
    (simp_all add: toRefresh_Initial toRefresh_Pending toRefresh_Refresh toRefresh_Replete
      initial_def pending_def)

text \<open>
  C8: \<^verbatim>\<open>fromNullable\<close> maps \<^verbatim>\<open>null\<close> and \<^verbatim>\<open>undefined\<close> to NotRequested, which is neither
  Loading nor a Failure, and maps every present value \<open>a\<close> to Settled(Success(a)).
\<close>

theorem fromNullable_cases:
  "fromNullable Null = (initial :: ('e, 'a) DatumEither)
   \<and> fromNullable Undefined = (initial :: ('e, 'a) DatumEither)
   \<and> (initial :: ('e, 'a) DatumEither) = Initial
   \<and> (initial :: ('e, 'a) DatumEither) \<noteq> pending
   \<and> \<not> isFailure (initial :: ('e, 'a) DatumEither)
   \<and> fromNullable (Present a) = (Replete (Right a) :: ('e, 'a) DatumEither)
   \<and> fromNullable (Present a) = (success a :: ('e, 'a) DatumEither)"
  by (simp add: fromNullable_def initial_def pending_def success_def isFailure_def
      isValued_def)

text \<open>
  C9: \<^verbatim>\<open>isSuccess\<close> and \<^verbatim>\<open>isFailure\<close> are never both true of the same value, and each of
  them implies \<^verbatim>\<open>isValued\<close>, that is, that the tag is Refreshing or Settled.
\<close>

theorem isSuccess_isFailure_exclusive:
  "\<not> (isSuccess s \<and> isFailure s)
   \<and> (isSuccess s \<longrightarrow> isValued s \<and> (\<exists>ou. s = Refresh ou \<or> s = Replete ou))
   \<and> (isFailure s \<longrightarrow> isValued s \<and> (\<exists>ou. s = Refresh ou \<or> s = Replete ou))"
proof (cases s)
  case (Refresh ou)
  then show ?thesis
    by (cases ou) (simp_all add: isSuccess_def isFailure_def isValued_def isLeft_def isRight_def)
next
  case (Replete ou)
  then show ?thesis
    by (cases ou) (simp_all add: isSuccess_def isFailure_def isValued_def isLeft_def isRight_def)
qed (simp_all add: isSuccess_def isFailure_def isValued_def)

theorem isSuccess_isFailure_exclusive_witness:
  "isSuccess (Refresh (Right (7::int)) :: (string, int) DatumEither)
   \<and> isValued (Refresh (Right (7::int)) :: (string, int) DatumEither)
   \<and> \<not> isFailure (Refresh (Right (7::int)) :: (string, int) DatumEither)
   \<and> isFailure (Replete (Left ''e'') :: (string, int) DatumEither)
   \<and> isValued (Replete (Left ''e'') :: (string, int) DatumEither)
   \<and> \<not> isSuccess (Replete (Left ''e'') :: (string, int) DatumEither)"
proof -
  have s: "isSuccess (Refresh (Right (7::int)) :: (string, int) DatumEither)"
    by (simp add: isSuccess_def isValued_def isRight_def)
  have f: "isFailure (Replete (Left ''e'') :: (string, int) DatumEither)"
    by (simp add: isFailure_def isValued_def isLeft_def)
  show ?thesis
    using s f
      isSuccess_isFailure_exclusive [of "Refresh (Right (7::int)) :: (string, int) DatumEither"]
      isSuccess_isFailure_exclusive [of "Replete (Left ''e'') :: (string, int) DatumEither"]
    by blast
qed

text \<open>
  C7: \<^verbatim>\<open>refreshFold\<close> and \<^verbatim>\<open>squash\<close> both pass \<open>True\<close> to the failure or success handler
  for a Refreshing value and \<open>False\<close> for a Settled value; \<^verbatim>\<open>squash\<close> sends NotRequested and
  Loading to the one \<^verbatim>\<open>onNone\<close> handler, with \<open>False\<close> for NotRequested and \<open>True\<close> for
  Loading, where \<^verbatim>\<open>refreshFold\<close> calls its two separate thunks.
\<close>

theorem refreshFold_squash_flags:
  "refreshFold onInitial onPending onFailure onSuccess (Refresh (Right a)) = onSuccess a True
   \<and> refreshFold onInitial onPending onFailure onSuccess (Refresh (Left e)) = onFailure e True
   \<and> refreshFold onInitial onPending onFailure onSuccess (Replete (Right a)) = onSuccess a False
   \<and> refreshFold onInitial onPending onFailure onSuccess (Replete (Left e)) = onFailure e False
   \<and> refreshFold onInitial onPending onFailure onSuccess initial = onInitial ()
   \<and> refreshFold onInitial onPending onFailure onSuccess pending = onPending ()
   \<and> squash onNone onFailure onSuccess (Refresh (Right a)) = onSuccess a True
   \<and> squash onNone onFailure onSuccess (Refresh (Left e)) = onFailure e True
   \<and> squash onNone onFailure onSuccess (Replete (Right a)) = onSuccess a False
   \<and> squash onNone onFailure onSuccess (Replete (Left e)) = onFailure e False
   \<and> squash onNone onFailure onSuccess initial = onNone False
   \<and> squash onNone onFailure onSuccess pending = onNone True"
  by (simp add: refreshFold_def squash_def fold_Datum_def isRight_def initial_def pending_def)

section \<open>Properties of the transformers\<close>

lemma map_DE_simps:
  "map_DE f Initial = Initial"
  "map_DE f Pending = Pending"
  "map_DE f (Refresh (Right a)) = Refresh (Right (f a))"
  "map_DE f (Refresh (Left e)) = Refresh (Left e)"
  "map_DE f (Replete (Right a)) = Replete (Right (f a))"
  "map_DE f (Replete (Left e)) = Replete (Left e)"
  by (simp_all add: map_DE_def datumEither_map_def datum_map_def either_map_def isLeft_def)

lemma chain_DE_simps:
  "chain_DE f Initial = Initial"
  "chain_DE f Pending = Pending"
  "chain_DE f (Refresh (Right a)) = f a"
  "chain_DE f (Refresh (Left e)) = Replete (Left e)"
  "chain_DE f (Replete (Right a)) = f a"
  "chain_DE f (Replete (Left e)) = Replete (Left e)"
  by (simp_all add: chain_DE_def datumEither_chain_def datum_chain_def datum_of_def isLeft_def)

lemma alt_calls_simps:
  "alt_calls that Initial = (Initial, 0)"
  "alt_calls that Pending = (Pending, 0)"
  "alt_calls that (Refresh (Right a)) = (Replete (Right a), 0)"
  "alt_calls that (Refresh (Left e)) = (that (), 1)"
  "alt_calls that (Replete (Right a)) = (Replete (Right a), 0)"
  "alt_calls that (Replete (Left e)) = (that (), 1)"
  by (simp_all add: alt_calls_def datum_chain_calls_def datumEither_of_def datum_of_def
      isLeft_def)

lemma alt_DE_simps:
  "alt_DE that Initial = Initial"
  "alt_DE that Pending = Pending"
  "alt_DE that (Refresh (Right a)) = Replete (Right a)"
  "alt_DE that (Refresh (Left e)) = that ()"
  "alt_DE that (Replete (Right a)) = Replete (Right a)"
  "alt_DE that (Replete (Left e)) = that ()"
  by (simp_all add: alt_DE_def datumEither_alt_def datum_chain_def datumEither_of_def
      datum_of_def isLeft_def)

lemma alt_calls_result: "fst (alt_calls that s) = alt_DE that s"
proof (cases s)
  case (Refresh ou)
  then show ?thesis by (cases ou) (simp_all add: alt_calls_simps alt_DE_simps)
next
  case (Replete ou)
  then show ?thesis by (cases ou) (simp_all add: alt_calls_simps alt_DE_simps)
qed (simp_all add: alt_calls_simps alt_DE_simps)

text \<open>
  C6: \<^verbatim>\<open>map(f)\<close> leaves NotRequested and Loading unchanged, keeps the tag of Refreshing and
  Settled values, transforms a Success payload by \<open>f\<close> and leaves a Failure payload
  untouched; adding one maps Settled(Success(4)) to Settled(Success(5)) and leaves
  Settled(Failure("e")) as it is.
\<close>

theorem map_DE_cases:
  "map_DE f (initial :: ('e, 'a) DatumEither) = initial
   \<and> map_DE f (pending :: ('e, 'a) DatumEither) = pending
   \<and> map_DE f (Refresh (Right a)) = Refresh (Right (f a))
   \<and> map_DE f (Refresh (Left e)) = Refresh (Left e)
   \<and> map_DE f (Replete (Right a)) = Replete (Right (f a))
   \<and> map_DE f (Replete (Left e)) = Replete (Left e)
   \<and> map_DE (\<lambda>x. x + 1) (Replete (Right (4::int)) :: (string, int) DatumEither)
       = Replete (Right 5)
   \<and> map_DE (\<lambda>x. x + 1) (Replete (Left ''e'') :: (string, int) DatumEither)
       = Replete (Left ''e'')"
  by (simp add: map_DE_simps initial_def pending_def)

text \<open>
  What \<^verbatim>\<open>chain(f)\<close> does on the five shapes other than a Refreshing failure: NotRequested
  and Loading are unchanged, a Settled failure short-circuits unchanged, and a Success
  payload is passed to \<open>f\<close>, whose result replaces the original value entirely; chaining
  Settled(Success(3)) into the doubling function gives Settled(Success(6)) and
  Settled(Success(-1)) gives Loading.
\<close>

lemma chain_DE_other_shapes:
  "chain_DE f (initial :: ('e, 'a) DatumEither) = initial
   \<and> chain_DE f (pending :: ('e, 'a) DatumEither) = pending
   \<and> chain_DE f (Replete (Left e)) = Replete (Left e)
   \<and> chain_DE f (Replete (Right a)) = f a
   \<and> chain_DE f (Refresh (Right a)) = f a
   \<and> chain_DE double_if_positive (Replete (Right 3)) = Replete (Right 6)
   \<and> chain_DE double_if_positive (Replete (Right (- 1))) = pending"
  by (simp add: chain_DE_simps initial_def pending_def double_if_positive_def)

text \<open>
  C2: on a Failure payload \<^verbatim>\<open>chain(f)\<close> is to short-circuit with the payload unchanged and
  the lifecycle tag, Refreshing or Settled, preserved. At Refreshing(Failure("e")) it does
  not: the short-circuit of \<^verbatim>\<open>getEitherM\<close> rebuilds the failure with the lifecycle's unit,
  and the value comes back as Settled(Failure("e")), whatever \<open>f\<close> is.
\<close>

theorem chain_DE_refresh_failure_settles:
  "chain_DE double_if_positive (Refresh (Left ''e'')) = Replete (Left ''e'')
   \<and> chain_DE double_if_positive (Refresh (Left ''e'')) \<noteq> Refresh (Left ''e'')"
  by (simp add: chain_DE_simps)

text \<open>
  C3, as amended: \<^verbatim>\<open>alt(that)(s)\<close> returns \<open>s\<close> itself when \<open>s\<close> is Settled(Success(a)) and
  when \<open>s\<close> is NotRequested or Loading, and evaluates \<^verbatim>\<open>that\<close> zero times there; when \<open>s\<close>
  carries a Failure, under either tag, it evaluates \<^verbatim>\<open>that\<close> exactly once and returns
  \<^verbatim>\<open>that()\<close>; the thunk is evaluated zero times whenever the receiver is Success-valued.
\<close>

theorem alt_DE_cases:
  "alt_calls that (Replete (Right a)) = (Replete (Right a), 0)
   \<and> snd (alt_calls that (Refresh (Right a))) = 0
   \<and> alt_calls that (initial :: ('e, 'a) DatumEither) = (initial, 0)
   \<and> alt_calls that (pending :: ('e, 'a) DatumEither) = (pending, 0)
   \<and> alt_calls that (Replete (Left e)) = (that (), 1)
   \<and> alt_calls that (Refresh (Left e)) = (that (), 1)
   \<and> alt_DE that s = fst (alt_calls that s)"
  by (simp add: alt_calls_simps alt_calls_result initial_def pending_def)

text \<open>
  \<^verbatim>\<open>alt\<close> on NotRequested does not fall through to the alternative and does not call it:
  the receiver is not Success-valued, yet it is the receiver that comes back.
\<close>

theorem alt_DE_not_option_like:
  "\<not> isSuccess (initial :: (string, int) DatumEither)
   \<and> alt_DE constPending (initial :: (string, int) DatumEither) = initial
   \<and> alt_DE constPending (initial :: (string, int) DatumEither) \<noteq> constPending ()
   \<and> snd (alt_calls constPending (initial :: (string, int) DatumEither)) = 0"
  by (simp add: alt_DE_simps alt_calls_simps initial_def pending_def constPending_def
      isSuccess_def isValued_def)

text \<open>
  The laws that hold: \<^verbatim>\<open>map\<close> satisfies the two functor laws, and \<^verbatim>\<open>chain\<close> with
  \<^verbatim>\<open>success\<close> as unit satisfies left identity and associativity, for all six shapes and
  all types; right identity holds for NotRequested, Loading and Settled values.
\<close>

lemma functor_monad_laws_holding:
  "map_DE id s = s
   \<and> map_DE (g \<circ> f) s = map_DE g (map_DE f s)
   \<and> chain_DE k (success a) = k a
   \<and> chain_DE h (chain_DE k s) = chain_DE (\<lambda>x. chain_DE h (k x)) s
   \<and> chain_DE success (initial :: ('e, 'a) DatumEither) = initial
   \<and> chain_DE success (pending :: ('e, 'a) DatumEither) = pending
   \<and> chain_DE success (Replete ou) = Replete ou"
proof -
  have lid: "chain_DE k (success a) = k a"
    by (simp add: success_def chain_DE_simps)
  have rid: "chain_DE success (Replete ou) = Replete ou"
    by (cases ou) (simp_all add: chain_DE_simps success_def)
  have rid0: "chain_DE success (initial :: ('e, 'a) DatumEither) = initial
      \<and> chain_DE success (pending :: ('e, 'a) DatumEither) = pending"
    by (simp add: chain_DE_simps initial_def pending_def)
  have fl: "map_DE id s = s \<and> map_DE (g \<circ> f) s = map_DE g (map_DE f s)"
  proof (cases s)
    case (Refresh x)
    then show ?thesis by (cases x) (simp_all add: map_DE_simps)
  next
    case (Replete x)
    then show ?thesis by (cases x) (simp_all add: map_DE_simps)
  qed (simp_all add: map_DE_simps)
  have assoc: "chain_DE h (chain_DE k s) = chain_DE (\<lambda>x. chain_DE h (k x)) s"
  proof (cases s)
    case (Refresh x)
    then show ?thesis by (cases x) (simp_all add: chain_DE_simps)
  next
    case (Replete x)
    then show ?thesis by (cases x) (simp_all add: chain_DE_simps)
  qed (simp_all add: chain_DE_simps)
  from lid rid rid0 fl assoc show ?thesis by blast
qed

text \<open>
  C4: the monad laws include right identity, \<^verbatim>\<open>chain(success)(s) == s\<close>, for all six
  shapes. At Refreshing(Success(1)) it fails: \<^verbatim>\<open>chain(success)\<close> returns
  Settled(Success(1)), although \<^verbatim>\<open>datumEither\<close> is declared a monad instance.
\<close>

theorem chain_DE_success_not_identity:
  "chain_DE success (Refresh (Right (1::int)) :: (string, int) DatumEither)
     = Replete (Right 1)
   \<and> chain_DE success (Refresh (Right (1::int)) :: (string, int) DatumEither)
     \<noteq> Refresh (Right 1)"
  by (simp add: chain_DE_simps success_def)

end
